theory Spec2Isabelle
  imports Complex_Main "HOL-Library.AList"
begin

unbundle bit_operations_syntax

section \<open>Python values\<close>

text \<open>
  A Python \<open>str\<close> is a sequence of Unicode code points; a code point is a natural number.
  ASCII literals of the source are written with \<open>str\<close>.
\<close>

type_synonym pystr = "nat list"

definition str :: "string \<Rightarrow> pystr" where
  "str cs = map of_char cs"

text \<open>
  A Python \<open>float\<close> as \<open>json.load\<close> can produce it: a finite value (a rational; both
  zeros are the rational 0), an infinity with its sign, or NaN.
\<close>

datatype pyfloat = FFinite rat | FInf bool | FNaN

text \<open>
  What \<open>json.load\<close> and \<open>json.loads\<close> return, and what \<open>json.dumps\<close> takes: \<open>JNull\<close> is
  Python's \<open>None\<close>, a \<open>dict\<close> is an association list in insertion order.
\<close>

datatype json =
    JNull
  | JBool bool
  | JInt int
  | JFloat pyfloat
  | JStr pystr
  | JArr "json list"
  | JObj "(pystr \<times> json) list"

type_synonym pydict = "(pystr \<times> json) list"

text \<open>\<open>d.get(k)\<close> is \<open>map_of d k\<close>; \<open>d.get(k, default)\<close>:\<close>

definition dict_get :: "pydict \<Rightarrow> pystr \<Rightarrow> json \<Rightarrow> json" where
  "dict_get d k dflt = (case map_of d k of None \<Rightarrow> dflt | Some v \<Rightarrow> v)"

text \<open>\<open>d[k] = v\<close>: replaces the value of an existing key in place, appends a new key.\<close>

definition dict_set :: "pydict \<Rightarrow> pystr \<Rightarrow> json \<Rightarrow> pydict" where
  "dict_set d k v = AList.update k v d"

text \<open>Truth value testing (\<open>if x:\<close>, \<open>x or y\<close>).\<close>

fun truthy :: "json \<Rightarrow> bool" where
  "truthy JNull = False"
| "truthy (JBool b) = b"
| "truthy (JInt i) = (i \<noteq> 0)"
| "truthy (JFloat (FFinite q)) = (q \<noteq> 0)"
| "truthy (JFloat (FInf s)) = True"
| "truthy (JFloat FNaN) = True"
| "truthy (JStr s) = (s \<noteq> [])"
| "truthy (JArr xs) = (xs \<noteq> [])"
| "truthy (JObj kvs) = (kvs \<noteq> [])"

text \<open>
  \<open>str.isspace\<close> for one code point, and \<open>str.strip()\<close> without argument: U+0009..U+000D,
  U+001C..U+0020, U+0085, U+00A0, U+1680, U+2000..U+200A, U+2028, U+2029, U+202F, U+205F,
  U+3000.
\<close>

definition py_isspace :: "nat \<Rightarrow> bool" where
  "py_isspace c =
     ((9 \<le> c \<and> c \<le> 13) \<or> (28 \<le> c \<and> c \<le> 32) \<or> c = 133 \<or> c = 160 \<or> c = 5760
      \<or> (8192 \<le> c \<and> c \<le> 8202) \<or> c = 8232 \<or> c = 8233 \<or> c = 8239 \<or> c = 8287
      \<or> c = 12288)"

definition strip :: "pystr \<Rightarrow> pystr" where
  "strip s = rev (dropWhile py_isspace (rev (dropWhile py_isspace s)))"

text \<open>\<open>str(n)\<close> for a non-negative integer, as the f-string of the source formats a uid.\<close>

fun str_of_nat :: "nat \<Rightarrow> pystr" where
  "str_of_nat n = (if n < 10 then [48 + n] else str_of_nat (n div 10) @ [48 + n mod 10])"

section \<open>Exceptions\<close>

text \<open>
  The exceptions the calls of the source can raise. \<open>socket.error\<close>, \<open>IOError\<close>,
  \<open>socket.timeout\<close>, \<open>FileNotFoundError\<close> and \<open>ConnectionRefusedError\<close> are \<open>OSError\<close> or
  subclasses of it; the payload is \<open>str(e)\<close>. \<open>json.JSONDecodeError\<close> and
  \<open>UnicodeDecodeError\<close> are two unrelated subclasses of \<open>ValueError\<close>; \<open>ValueError\<close> here
  is a \<open>ValueError\<close> of neither subclass, which the JSON parser raises for an integer
  literal longer than the interpreter's digit limit. \<open>RecursionError\<close> is what the parser
  raises for a document nested deeper than the recursion limit. \<open>AttributeError\<close> is what
  \<open>x.get\<close> raises when \<open>x\<close> is not a \<open>dict\<close>.
\<close>

datatype exn =
    OSError pystr
  | JSONDecodeError
  | UnicodeDecodeError
  | ValueError
  | RecursionError
  | AttributeError

fun is_OSError :: "exn \<Rightarrow> bool" where
  "is_OSError (OSError m) = True"
| "is_OSError e = False"

section \<open>The environment of one invocation\<close>

text \<open>
  Everything the process observes is a field of the environment: what each system call of
  the source returns or raises when it is made. The fields are independent, so a file that
  changes between two calls is an environment too.
\<close>

record stat_result =
  st_uid :: nat
  st_mode :: nat

text \<open>
  \<open>open(TOKEN_PATH, 'r')\<close> followed by \<open>f.read()\<close>: \<open>OSError\<close> from either call, bytes that the
  text decoder rejects (\<open>UnicodeDecodeError\<close>), or the decoded text.
\<close>

datatype read_result = ReadOSError pystr | ReadUndecodable | ReadText pystr

text \<open>
  \<open>json.load(sys.stdin)\<close>: input the text decoder rejects, text that is no JSON document,
  a JSON document with an integer literal over the digit limit (\<open>ValueError\<close>), a JSON
  document nested too deeply (\<open>RecursionError\<close>), or the parsed document.
\<close>

datatype stdin_result =
    StdinUndecodable
  | StdinNotJson
  | StdinDigitLimit
  | StdinTooDeep
  | StdinJson json

text \<open>
  \<open>sock.recv(4096)\<close> and what \<open>response.decode()\<close> and \<open>json.loads\<close> make of the bytes:
  \<open>OSError\<close> (a timeout is one), the empty bytes object of a closed peer, non-empty bytes
  that are not valid text, text that is no JSON document, a JSON document that
  \<open>json.loads\<close> refuses for an integer literal over the digit limit (\<open>ValueError\<close>) or for
  its nesting depth (\<open>RecursionError\<close>), or a JSON document that it returns.
\<close>

datatype recv_result =
    RecvOSError pystr
  | RecvEmpty
  | RecvUndecodable
  | RecvNotJson
  | RecvDigitLimit
  | RecvTooDeep
  | RecvJson json

record env =
  getuid :: nat  \<comment> \<open>\<open>os.getuid()\<close>: the real user id\<close>
  geteuid :: nat  \<comment> \<open>the effective user id; no call of the source reads it\<close>
  getppid :: int
  ps_stdout :: "pystr option"  \<comment> \<open>output of \<open>ps -p ppid -o tty=\<close>, \<open>None\<close> when the call raises\<close>
  stdin_ttyname :: "pystr option"
  stdout_ttyname :: "pystr option"
  stdin :: stdin_result
  exists_socket :: bool  \<comment> \<open>\<open>os.path.exists(SOCKET_PATH)\<close>\<close>
  stat_socket :: "pystr + stat_result"  \<comment> \<open>\<open>os.stat(SOCKET_PATH)\<close>, \<open>Inl\<close> the \<open>OSError\<close>\<close>
  exists_token :: bool
  stat_token :: "pystr + stat_result"
  read_token :: read_result
  socket_create :: "pystr option"  \<comment> \<open>\<open>socket.socket(...)\<close>: \<open>Some\<close> the \<open>OSError\<close>\<close>
  socket_connect :: "pystr option"
  socket_sendall :: "pystr option"
  socket_recv :: recv_result

section \<open>The program\<close>

definition TIMEOUT_SECONDS :: nat where
  "TIMEOUT_SECONDS = 300"

text \<open>\<open>stat.S_ISSOCK(mode)\<close>: \<open>(mode & 0o170000) == 0o140000\<close>.\<close>

definition S_ISSOCK :: "nat \<Rightarrow> bool" where
  "S_ISSOCK mode = (mode AND 61440 = 49152)"

text \<open>
  \<open>verify_socket_security\<close>: the body of the \<open>try\<close>, then the function with its
  \<open>except OSError\<close> clause.
\<close>

definition verify_socket_security_body :: "env \<Rightarrow> exn + (bool \<times> pystr option)" where
  "verify_socket_security_body e =
     (if \<not> exists_socket e then Inr (False, Some (str ''Socket does not exist''))
      else case stat_socket e of
        Inl m \<Rightarrow> Inl (OSError m)
      | Inr sock_stat \<Rightarrow>
          if st_uid sock_stat \<noteq> getuid e
          then Inr (False, Some (str ''Socket owned by uid '' @ str_of_nat (st_uid sock_stat)
                                 @ str '', expected '' @ str_of_nat (getuid e)))
          else if \<not> S_ISSOCK (st_mode sock_stat)
          then Inr (False, Some (str ''Path is not a socket''))
          else Inr (True, None))"

definition verify_socket_security :: "env \<Rightarrow> exn + (bool \<times> pystr option)" where
  "verify_socket_security e =
     (case verify_socket_security_body e of
        Inl (OSError m) \<Rightarrow> Inr (False, Some m)
      | Inl x \<Rightarrow> Inl x
      | Inr r \<Rightarrow> Inr r)"

text \<open>
  \<open>read_auth_token\<close>: \<open>None\<close> is the absent token. The checks run only when
  \<open>os.path.exists\<close> answers true; the file is opened in both cases.
\<close>

definition read_token_file :: "env \<Rightarrow> exn + pystr option" where
  "read_token_file e =
     (case read_token e of
        ReadOSError m \<Rightarrow> Inl (OSError m)
      | ReadUndecodable \<Rightarrow> Inl UnicodeDecodeError
      | ReadText t \<Rightarrow> Inr (Some (strip t)))"

definition read_auth_token_body :: "env \<Rightarrow> exn + pystr option" where
  "read_auth_token_body e =
     (if exists_token e then
        (case stat_token e of
           Inl m \<Rightarrow> Inl (OSError m)
         | Inr token_stat \<Rightarrow>
             if st_uid token_stat \<noteq> getuid e then Inr None
             else if st_mode token_stat AND 63 \<noteq> 0 then Inr None
             else read_token_file e)
      else read_token_file e)"

definition read_auth_token :: "env \<Rightarrow> exn + pystr option" where
  "read_auth_token e =
     (case read_auth_token_body e of
        Inl (OSError m) \<Rightarrow> Inr None
      | Inl x \<Rightarrow> Inl x
      | Inr r \<Rightarrow> Inr r)"

text \<open>
  \<open>get_tty\<close>: the output of \<open>ps\<close> for the parent process, else the terminal of standard
  input, else that of standard output. Every exception is caught inside.
\<close>

definition get_tty_fallback :: "env \<Rightarrow> pystr option" where
  "get_tty_fallback e =
     (case stdin_ttyname e of Some t \<Rightarrow> Some t | None \<Rightarrow> stdout_ttyname e)"

definition get_tty :: "env \<Rightarrow> pystr option" where
  "get_tty e =
     (case ps_stdout e of
        None \<Rightarrow> get_tty_fallback e
      | Some out \<Rightarrow>
          (let tty = strip out in
           if tty \<noteq> [] \<and> tty \<noteq> str ''??'' \<and> tty \<noteq> str ''-''
           then Some (if take 5 tty = str ''/dev/'' then tty else str ''/dev/'' @ tty)
           else get_tty_fallback e))"

text \<open>
  The calls \<open>send_event\<close> makes on the socket module and the socket object, in the order it
  makes them; a call that raises is in the trace too. \<open>SendAll\<close> carries the dictionary that
  \<open>json.dumps\<close> serialises.
\<close>

datatype sock_op = Socket | SetTimeout nat | Connect | SendAll pydict | Recv nat | Close

text \<open>
  \<open>send_event\<close>: the body of the \<open>try\<close>, with the trace of socket calls and the value
  returned (\<open>JNull\<close> is \<open>None\<close>) or the exception raised; then the function with its
  \<open>except (socket.error, OSError, json.JSONDecodeError)\<close> clause. The assignment
  \<open>state["_auth_token"] = auth_token\<close> changes the caller's dictionary; no caller reads it
  afterwards, so only the message sent carries it.
\<close>

definition send_event_body :: "env \<Rightarrow> pydict \<Rightarrow> sock_op list \<times> (exn + json)" where
  "send_event_body e state =
     (case verify_socket_security e of
        Inl x \<Rightarrow> ([], Inl x)
      | Inr (is_safe, error) \<Rightarrow>
          (if \<not> is_safe then ([], Inr JNull)
           else
             (case read_auth_token e of
                Inl x \<Rightarrow> ([], Inl x)
              | Inr None \<Rightarrow> ([], Inr JNull)
              | Inr (Some auth_token) \<Rightarrow>
                  (if auth_token = [] then ([], Inr JNull)
                   else
                     (let state' = dict_set state (str ''_auth_token'') (JStr auth_token) in
                      (case socket_create e of
                         Some m \<Rightarrow> ([Socket], Inl (OSError m))
                       | None \<Rightarrow>
                           (case socket_connect e of
                              Some m \<Rightarrow>
                                ([Socket, SetTimeout TIMEOUT_SECONDS, Connect], Inl (OSError m))
                            | None \<Rightarrow>
                                (case socket_sendall e of
                                   Some m \<Rightarrow>
                                     ([Socket, SetTimeout TIMEOUT_SECONDS, Connect,
                                       SendAll state'], Inl (OSError m))
                                 | None \<Rightarrow>
                                     (if dict_get state' (str ''status'') JNull
                                         = JStr (str ''waiting_for_approval'')
                                      then
                                        (case socket_recv e of
                                           RecvOSError m \<Rightarrow>
                                             ([Socket, SetTimeout TIMEOUT_SECONDS, Connect,
                                               SendAll state', Recv 4096], Inl (OSError m))
                                         | RecvEmpty \<Rightarrow>
                                             ([Socket, SetTimeout TIMEOUT_SECONDS, Connect,
                                               SendAll state', Recv 4096, Close], Inr JNull)
                                         | RecvUndecodable \<Rightarrow>
                                             ([Socket, SetTimeout TIMEOUT_SECONDS, Connect,
                                               SendAll state', Recv 4096, Close],
                                              Inl UnicodeDecodeError)
                                         | RecvNotJson \<Rightarrow>
                                             ([Socket, SetTimeout TIMEOUT_SECONDS, Connect,
                                               SendAll state', Recv 4096, Close],
                                              Inl JSONDecodeError)
                                         | RecvDigitLimit \<Rightarrow>
                                             ([Socket, SetTimeout TIMEOUT_SECONDS, Connect,
                                               SendAll state', Recv 4096, Close],
                                              Inl ValueError)
                                         | RecvTooDeep \<Rightarrow>
                                             ([Socket, SetTimeout TIMEOUT_SECONDS, Connect,
                                               SendAll state', Recv 4096, Close],
                                              Inl RecursionError)
                                         | RecvJson response \<Rightarrow>
                                             ([Socket, SetTimeout TIMEOUT_SECONDS, Connect,
                                               SendAll state', Recv 4096, Close],
                                              Inr response))
                                      else
                                        ([Socket, SetTimeout TIMEOUT_SECONDS, Connect,
                                          SendAll state', Close], Inr JNull))))))))))"

definition send_event :: "env \<Rightarrow> pydict \<Rightarrow> sock_op list \<times> (exn + json)" where
  "send_event e state =
     (case send_event_body e state of
        (tr, Inl x) \<Rightarrow> (tr, if is_OSError x \<or> x = JSONDecodeError then Inr JNull else Inl x)
      | (tr, Inr r) \<Rightarrow> (tr, Inr r))"

text \<open>
  What one run of the process leaves behind: the exit status, the exception that ended it
  when one reached the top level (the interpreter then exits with status 1), the documents
  printed on standard output, the dictionaries passed to \<open>send_event\<close>, and the socket calls.
  Writing to standard output is taken to succeed.
\<close>

record outcome =
  exit_code :: nat
  uncaught :: "exn option"
  stdout :: "json list"
  sent :: "pydict list"
  ops :: "sock_op list"

definition sys_exit :: "nat \<Rightarrow> json list \<Rightarrow> pydict list \<Rightarrow> sock_op list \<Rightarrow> outcome" where
  "sys_exit code out snt tr =
     \<lparr>exit_code = code, uncaught = None, stdout = out, sent = snt, ops = tr\<rparr>"

definition traceback :: "exn \<Rightarrow> json list \<Rightarrow> pydict list \<Rightarrow> sock_op list \<Rightarrow> outcome" where
  "traceback x out snt tr =
     \<lparr>exit_code = 1, uncaught = Some x, stdout = out, sent = snt, ops = tr\<rparr>"

text \<open>Lines 139 to 155 of the source: the state object before the status is set.\<close>

definition base_state :: "env \<Rightarrow> pydict \<Rightarrow> pydict" where
  "base_state e data =
     [(str ''session_id'', dict_get data (str ''session_id'') (JStr (str ''unknown''))),
      (str ''cwd'', dict_get data (str ''cwd'') (JStr [])),
      (str ''event'', dict_get data (str ''hook_event_name'') (JStr [])),
      (str ''pid'', JInt (getppid e)),
      (str ''tty'', (case get_tty e of None \<Rightarrow> JNull | Some t \<Rightarrow> JStr t))]"

text \<open>
  \<open>state["tool"] = data.get("tool_name"); state["tool_input"] = tool_input\<close>, and the
  \<open>tool_use_id\<close> that is copied only when it is truthy.
\<close>

definition set_tool :: "pydict \<Rightarrow> pydict \<Rightarrow> pydict" where
  "set_tool data state =
     dict_set (dict_set state (str ''tool'') (dict_get data (str ''tool_name'') JNull))
       (str ''tool_input'') (dict_get data (str ''tool_input'') (JObj []))"

definition set_tool_use_id :: "pydict \<Rightarrow> pydict \<Rightarrow> pydict" where
  "set_tool_use_id data state =
     (let tool_use_id_from_event = dict_get data (str ''tool_use_id'') JNull in
      if truthy tool_use_id_from_event
      then dict_set state (str ''tool_use_id'') tool_use_id_from_event
      else state)"

definition set_status :: "pydict \<Rightarrow> string \<Rightarrow> pydict" where
  "set_status state s = dict_set state (str ''status'') (JStr (str s))"

text \<open>The two documents the \<open>PermissionRequest\<close> branch prints.\<close>

definition allow_output :: json where
  "allow_output =
     JObj [(str ''hookSpecificOutput'',
            JObj [(str ''hookEventName'', JStr (str ''PermissionRequest'')),
                  (str ''decision'', JObj [(str ''behavior'', JStr (str ''allow''))])])]"

definition deny_output :: "json \<Rightarrow> json" where
  "deny_output message =
     JObj [(str ''hookSpecificOutput'',
            JObj [(str ''hookEventName'', JStr (str ''PermissionRequest'')),
                  (str ''decision'',
                   JObj [(str ''behavior'', JStr (str ''deny'')),
                         (str ''message'', message)])])]"

text \<open>Lines 188 to 220: the request is sent and the reply rendered.\<close>

definition permission_request :: "env \<Rightarrow> pydict \<Rightarrow> outcome" where
  "permission_request e state =
     (case send_event e state of
        (tr, Inl x) \<Rightarrow> traceback x [] [state] tr
      | (tr, Inr response) \<Rightarrow>
          if truthy response then
            (case response of
               JObj r \<Rightarrow>
                 (let decision = dict_get r (str ''decision'') (JStr (str ''ask''));
                      reason = dict_get r (str ''reason'') (JStr [])
                  in
                  if decision = JStr (str ''allow'')
                  then sys_exit 0 [allow_output] [state] tr
                  else if decision = JStr (str ''deny'')
                  then sys_exit 0
                         [deny_output (if truthy reason then reason
                                       else JStr (str ''Denied by user via ClaudeIsland''))]
                         [state] tr
                  else sys_exit 0 [] [state] tr)
             | _ \<Rightarrow> traceback AttributeError [] [state] tr)
          else sys_exit 0 [] [state] tr)"

text \<open>Line 256: the last statement of \<open>main\<close>, after which the process ends with status 0.\<close>

definition send_and_return :: "env \<Rightarrow> pydict \<Rightarrow> outcome" where
  "send_and_return e state =
     (case send_event e state of
        (tr, Inl x) \<Rightarrow> traceback x [] [state] tr
      | (tr, Inr r) \<Rightarrow> sys_exit 0 [] [state] tr)"

text \<open>Lines 139 to 256, for the dictionary \<open>data\<close> read from standard input.\<close>

definition main_body :: "env \<Rightarrow> pydict \<Rightarrow> outcome" where
  "main_body e data =
     (let event = dict_get data (str ''hook_event_name'') (JStr []);
          state = base_state e data
      in
      if event = JStr (str ''UserPromptSubmit'')
      then send_and_return e (set_status state ''processing'')
      else if event = JStr (str ''PreToolUse'')
      then send_and_return e (set_tool_use_id data (set_tool data (set_status state ''running_tool'')))
      else if event = JStr (str ''PostToolUse'')
      then send_and_return e (set_tool_use_id data (set_tool data (set_status state ''processing'')))
      else if event = JStr (str ''PermissionRequest'')
      then permission_request e (set_tool data (set_status state ''waiting_for_approval''))
      else if event = JStr (str ''Notification'')
      then
        (let notification_type = dict_get data (str ''notification_type'') JNull in
         if notification_type = JStr (str ''permission_prompt'')
         then sys_exit 0 [] [] []
         else
           send_and_return e
             (dict_set
                (dict_set
                   (set_status state
                      (if notification_type = JStr (str ''idle_prompt'')
                       then ''waiting_for_input'' else ''notification''))
                   (str ''notification_type'') notification_type)
                (str ''message'') (dict_get data (str ''message'') JNull)))
      else if event = JStr (str ''Stop'')
      then send_and_return e (set_status state ''waiting_for_input'')
      else if event = JStr (str ''SubagentStop'')
      then send_and_return e (set_status state ''waiting_for_input'')
      else if event = JStr (str ''SessionStart'')
      then send_and_return e (set_status state ''waiting_for_input'')
      else if event = JStr (str ''SessionEnd'')
      then send_and_return e (set_status state ''ended'')
      else if event = JStr (str ''PreCompact'')
      then send_and_return e (set_status state ''compacting'')
      else send_and_return e (set_status state ''unknown''))"

text \<open>
  \<open>main\<close>: \<open>json.load(sys.stdin)\<close> with its \<open>except json.JSONDecodeError: sys.exit(1)\<close>,
  which catches none of the other exceptions of the parser; a document that is not a
  \<open>dict\<close> has no \<open>get\<close>, so line 139 raises \<open>AttributeError\<close>.
\<close>

definition main :: "env \<Rightarrow> outcome" where
  "main e =
     (case stdin e of
        StdinUndecodable \<Rightarrow> traceback UnicodeDecodeError [] [] []
      | StdinNotJson \<Rightarrow> sys_exit 1 [] [] []
      | StdinDigitLimit \<Rightarrow> traceback ValueError [] [] []
      | StdinTooDeep \<Rightarrow> traceback RecursionError [] [] []
      | StdinJson (JObj data) \<Rightarrow> main_body e data
      | StdinJson _ \<Rightarrow> traceback AttributeError [] [] [])"

section \<open>Concrete environments\<close>

text \<open>
  The authority is running and answers: the socket and the token file belong to user 501,
  the socket has mode \<open>0o140700\<close>, the token file mode \<open>0o100600\<close> and the content
  \<open>secret\<close> with a newline, every socket call succeeds, and the reply to the permission
  request on standard input is \<open>{"decision": "allow"}\<close>.
\<close>

definition env_up :: env where
  "env_up =
     \<lparr>getuid = 501, geteuid = 501, getppid = 4242,
      ps_stdout = Some (str ''ttys001'' @ [10]), stdin_ttyname = None, stdout_ttyname = None,
      stdin = StdinJson (JObj [(str ''hook_event_name'', JStr (str ''PermissionRequest'')),
                               (str ''tool_name'', JStr (str ''Bash''))]),
      exists_socket = True, stat_socket = Inr \<lparr>st_uid = 501, st_mode = 49600\<rparr>,
      exists_token = True, stat_token = Inr \<lparr>st_uid = 501, st_mode = 33152\<rparr>,
      read_token = ReadText (str ''secret'' @ [10]),
      socket_create = None, socket_connect = None, socket_sendall = None,
      socket_recv = RecvJson (JObj [(str ''decision'', JStr (str ''allow''))])\<rparr>"

text \<open>The scenario of the specification: the notification with the permission-prompt subtype.\<close>

definition env_prompt :: env where
  "env_prompt =
     env_up\<lparr>stdin :=
       StdinJson (JObj [(str ''hook_event_name'', JStr (str ''Notification'')),
                        (str ''notification_type'', JStr (str ''permission_prompt''))])\<rparr>"

text \<open>A token file that holds a space and a newline.\<close>

definition env_blank :: env where
  "env_blank = env_up\<lparr>read_token := ReadText [32, 10]\<rparr>"

text \<open>
  The process runs with real user 501 and effective user 0, and the socket belongs to
  user 0.
\<close>

definition env_setuid :: env where
  "env_setuid = env_up\<lparr>geteuid := 0, stat_socket := Inr \<lparr>st_uid = 0, st_mode = 49600\<rparr>\<rparr>"

text \<open>The authority is not running: nothing is at the socket path.\<close>

definition env_down :: env where
  "env_down =
     env_up\<lparr>exists_socket := False, stat_socket := Inl (str ''No such file or directory'')\<rparr>"

text \<open>The socket is removed between \<open>os.path.exists\<close> and \<open>os.stat\<close>.\<close>

definition env_vanished :: env where
  "env_vanished = env_up\<lparr>stat_socket := Inl (str ''No such file or directory'')\<rparr>"

text \<open>Another user's regular file (mode \<open>0o100644\<close>) is at the socket path.\<close>

definition env_foreign :: env where
  "env_foreign = env_up\<lparr>stat_socket := Inr \<lparr>st_uid = 502, st_mode = 33188\<rparr>\<rparr>"

text \<open>A regular file of the user (mode \<open>0o100600\<close>) is at the socket path.\<close>

definition env_regular :: env where
  "env_regular = env_up\<lparr>stat_socket := Inr \<lparr>st_uid = 501, st_mode = 33152\<rparr>\<rparr>"

text \<open>The token file passes the checks and holds bytes that are not valid text.\<close>

definition env_garbled_token :: env where
  "env_garbled_token = env_up\<lparr>read_token := ReadUndecodable\<rparr>"

text \<open>The authority replies with bytes that are not valid text, such as the byte \<open>0xFF\<close>.\<close>

definition env_garbled_reply :: env where
  "env_garbled_reply = env_up\<lparr>socket_recv := RecvUndecodable\<rparr>"

text \<open>The authority replies with the JSON document \<open>[1]\<close>.\<close>

definition env_list_reply :: env where
  "env_list_reply = env_up\<lparr>socket_recv := RecvJson (JArr [JInt 1])\<rparr>"

text \<open>The authority accepts the request and sends no reply within the timeout.\<close>

definition env_timeout :: env where
  "env_timeout = env_up\<lparr>socket_recv := RecvOSError (str ''timed out'')\<rparr>"

text \<open>A record tagged as a request.\<close>

definition request_record :: pydict where
  "request_record =
     [(str ''session_id'', JStr (str ''s1'')),
      (str ''status'', JStr (str ''waiting_for_approval''))]"

text \<open>A fire-and-forget record.\<close>

definition ended_record :: pydict where
  "ended_record =
     [(str ''session_id'', JStr (str ''s1'')), (str ''status'', JStr (str ''ended''))]"

text \<open>
  The authority answers the permission request with a denial and the reason \<open>x\<close>, with a
  denial without reason, and with \<open>ask\<close>.
\<close>

definition env_deny_reason :: env where
  "env_deny_reason =
     env_up\<lparr>socket_recv :=
       RecvJson (JObj [(str ''decision'', JStr (str ''deny'')),
                       (str ''reason'', JStr (str ''x''))])\<rparr>"

definition env_deny :: env where
  "env_deny = env_up\<lparr>socket_recv := RecvJson (JObj [(str ''decision'', JStr (str ''deny''))])\<rparr>"

definition env_ask :: env where
  "env_ask = env_up\<lparr>socket_recv := RecvJson (JObj [(str ''decision'', JStr (str ''ask''))])\<rparr>"

text \<open>The notification on standard input in \<open>env_up\<close>.\<close>

definition request_input :: pydict where
  "request_input =
     [(str ''hook_event_name'', JStr (str ''PermissionRequest'')),
      (str ''tool_name'', JStr (str ''Bash''))]"

text \<open>A permission-prompt notification with a session and a message.\<close>

definition env_prompt_session :: env where
  "env_prompt_session =
     env_up\<lparr>stdin :=
       StdinJson (JObj [(str ''session_id'', JStr (str ''s1'')),
                        (str ''hook_event_name'', JStr (str ''Notification'')),
                        (str ''notification_type'', JStr (str ''permission_prompt'')),
                        (str ''message'', JStr (str ''Claude needs your permission''))])\<rparr>"

text \<open>A session start, and a kind the program does not know.\<close>

definition env_start :: env where
  "env_start =
     env_up\<lparr>stdin := StdinJson (JObj [(str ''hook_event_name'', JStr (str ''SessionStart''))])\<rparr>"

definition env_unknown :: env where
  "env_unknown =
     env_up\<lparr>stdin := StdinJson (JObj [(str ''hook_event_name'', JStr (str ''SomethingNew''))])\<rparr>"

section \<open>Basic facts\<close>

declare str_of_nat.simps [simp del]

lemma str_eq_iff [simp]: "str a = str b \<longleftrightarrow> a = b"
  by (simp add: str_def inj_map_eq_map inj_on_def)

lemma dict_get_None [simp]: "map_of d k = None \<Longrightarrow> dict_get d k dflt = dflt"
  by (simp add: dict_get_def)

lemma dict_get_Some [simp]: "map_of d k = Some v \<Longrightarrow> dict_get d k dflt = v"
  by (simp add: dict_get_def)

lemma strip_all_space:
  assumes "\<forall>c\<in>set s. py_isspace c"
  shows "strip s = []"
proof -
  have drop: "dropWhile py_isspace s = []"
    using assms by (simp add: dropWhile_eq_Nil_conv)
  show ?thesis unfolding strip_def drop by simp
qed

lemma verify_socket_security_returns:
  "\<exists>ok reason. verify_socket_security e = Inr (ok, reason)"
  by (auto simp: verify_socket_security_def verify_socket_security_body_def split: sum.split)

lemma verify_socket_security_no_exn [simp]: "verify_socket_security e \<noteq> Inl x"
  using verify_socket_security_returns [of e] by auto

section \<open>Suppression, blank tokens and the endpoint check\<close>

text \<open>
  C8. When the notification on standard input has the kind \<open>Notification\<close> and the subtype
  \<open>permission_prompt\<close>, the run ends with exit status 0, nothing is printed, no record is
  passed to \<open>send_event\<close> and no socket call is made, whatever the environment is otherwise.
\<close>

theorem permission_prompt_suppressed:
  assumes "stdin e = StdinJson (JObj data)"
    and "map_of data (str ''hook_event_name'') = Some (JStr (str ''Notification''))"
    and "map_of data (str ''notification_type'') = Some (JStr (str ''permission_prompt''))"
  shows "main e = \<lparr>exit_code = 0, uncaught = None, stdout = [], sent = [], ops = []\<rparr>"
  using assms by (simp add: main_def main_body_def sys_exit_def)

theorem permission_prompt_suppressed_witness:
  "stdin env_prompt =
     StdinJson (JObj [(str ''hook_event_name'', JStr (str ''Notification'')),
                      (str ''notification_type'', JStr (str ''permission_prompt''))])
   \<and> main env_prompt = \<lparr>exit_code = 0, uncaught = None, stdout = [], sent = [], ops = []\<rparr>"
  using permission_prompt_suppressed [of env_prompt
     "[(str ''hook_event_name'', JStr (str ''Notification'')),
       (str ''notification_type'', JStr (str ''permission_prompt''))]"]
  by (simp add: env_prompt_def env_up_def)

text \<open>
  C10. When the token file exists, belongs to the current user, grants nothing to group and
  others, and its content is empty or only whitespace, \<open>read_auth_token\<close> returns the empty
  string, and \<open>send_event\<close> returns \<open>None\<close> without a single socket call, for every record.
\<close>

theorem blank_token_is_absent:
  assumes "exists_token e" and "stat_token e = Inr token_stat"
    and "st_uid token_stat = getuid e" and "st_mode token_stat AND 63 = 0"
    and "read_token e = ReadText content" and "\<forall>c\<in>set content. py_isspace c"
  shows "read_auth_token e = Inr (Some []) \<and> send_event e state = ([], Inr JNull)"
proof -
  have tok: "read_auth_token e = Inr (Some [])"
    using assms
    by (simp add: read_auth_token_def read_auth_token_body_def read_token_file_def
        strip_all_space)
  have "send_event_body e state = ([], Inr JNull)"
    by (simp add: send_event_body_def tok split: sum.split prod.split)
  then show ?thesis using tok by (simp add: send_event_def)
qed

theorem blank_token_is_absent_witness:
  "exists_token env_blank \<and> stat_token env_blank = Inr \<lparr>st_uid = 501, st_mode = 33152\<rparr>
   \<and> st_uid \<lparr>st_uid = 501, st_mode = 33152\<rparr> = getuid env_blank
   \<and> st_mode \<lparr>st_uid = 501, st_mode = 33152\<rparr> AND 63 = (0::nat)
   \<and> read_token env_blank = ReadText [32, 10]
   \<and> py_isspace 32 \<and> py_isspace 10
   \<and> read_auth_token env_blank = Inr (Some [])
   \<and> send_event env_blank [(str ''status'', JStr (str ''ended''))] = ([], Inr JNull)"
  using blank_token_is_absent [of env_blank "\<lparr>st_uid = 501, st_mode = 33152\<rparr>" "[32, 10]"
      "[(str ''status'', JStr (str ''ended''))]"]
  by (simp add: env_blank_def env_up_def py_isspace_def)

text \<open>
  C6, as stated, fails: the owner is compared with \<open>os.getuid()\<close>, the real user id, not
  with the effective one. Under real user 501 and effective user 0, a socket of user 0
  passes the three checks of the claim and is rejected.
\<close>

theorem effective_uid_counterexample:
  "exists_socket env_setuid
   \<and> stat_socket env_setuid = Inr \<lparr>st_uid = 0, st_mode = 49600\<rparr>
   \<and> st_uid \<lparr>st_uid = 0, st_mode = 49600\<rparr> = geteuid env_setuid
   \<and> S_ISSOCK (st_mode \<lparr>st_uid = 0, st_mode = 49600\<rparr>)
   \<and> verify_socket_security env_setuid =
       Inr (False, Some (str ''Socket owned by uid 0, expected 501''))"
  by (simp add: env_setuid_def env_up_def S_ISSOCK_def verify_socket_security_def
      verify_socket_security_body_def str_of_nat.simps str_def)

text \<open>
  C6, amended. \<open>verify_socket_security\<close> always returns a pair and never raises. The
  answer is ok exactly when the path exists, \<open>os.stat\<close> succeeds, the owner is the real user
  id of the process and the file type is socket; then there is no reason. Otherwise there is
  a reason, and it is that of the first check that fails, in the order existence, \<open>os.stat\<close>,
  owner, file type: a file of another user is reported as such whatever its type is.
\<close>

theorem verify_socket_security_checks:
  "\<exists>ok reason. verify_socket_security e = Inr (ok, reason)
     \<and> (ok \<longleftrightarrow> exists_socket e \<and>
           (\<exists>st. stat_socket e = Inr st \<and> st_uid st = getuid e \<and> S_ISSOCK (st_mode st)))
     \<and> (ok \<longrightarrow> reason = None)
     \<and> (\<not> ok \<longrightarrow> reason \<noteq> None)
     \<and> (\<not> exists_socket e \<longrightarrow> reason = Some (str ''Socket does not exist''))
     \<and> (\<forall>m. exists_socket e \<and> stat_socket e = Inl m \<longrightarrow> reason = Some m)
     \<and> (\<forall>st. exists_socket e \<and> stat_socket e = Inr st \<and> st_uid st \<noteq> getuid e \<longrightarrow>
           reason = Some (str ''Socket owned by uid '' @ str_of_nat (st_uid st)
                          @ str '', expected '' @ str_of_nat (getuid e)))
     \<and> (\<forall>st. exists_socket e \<and> stat_socket e = Inr st \<and> st_uid st = getuid e
              \<and> \<not> S_ISSOCK (st_mode st) \<longrightarrow>
           reason = Some (str ''Path is not a socket''))"
  by (cases "stat_socket e")
     (auto simp: verify_socket_security_def verify_socket_security_body_def)

theorem verify_socket_security_checks_witness:
  "verify_socket_security env_up = Inr (True, None)
   \<and> verify_socket_security env_down = Inr (False, Some (str ''Socket does not exist''))
   \<and> verify_socket_security env_foreign =
       Inr (False, Some (str ''Socket owned by uid 502, expected 501''))
   \<and> verify_socket_security env_regular = Inr (False, Some (str ''Path is not a socket''))
   \<and> verify_socket_security env_vanished =
       Inr (False, Some (str ''No such file or directory''))"
  using verify_socket_security_checks [of env_up] verify_socket_security_checks [of env_down]
    verify_socket_security_checks [of env_foreign] verify_socket_security_checks [of env_regular]
    verify_socket_security_checks [of env_vanished]
  by (auto simp: env_up_def env_down_def env_foreign_def env_regular_def env_vanished_def
      S_ISSOCK_def str_of_nat.simps str_def)

section \<open>What the reader of the token and the sender do in general\<close>

lemmas send_defs = send_event_def send_event_body_def verify_socket_security_def
  verify_socket_security_body_def read_auth_token_def read_auth_token_body_def
  read_token_file_def S_ISSOCK_def strip_def py_isspace_def dict_set_def TIMEOUT_SECONDS_def

lemmas main_defs = main_def main_body_def permission_request_def send_and_return_def
  base_state_def set_tool_def set_tool_use_id_def set_status_def get_tty_def
  get_tty_fallback_def sys_exit_def traceback_def

text \<open>One of the six permission bits of group and others is set exactly when \<open>mode & 0o077\<close> is not zero.\<close>

lemma group_other_bits: "(\<exists>i<6. bit (m::nat) i) \<longleftrightarrow> m AND 63 \<noteq> 0"
proof -
  have "(63::nat) = mask 6" by (simp add: mask_eq_exp_minus_1)
  then show ?thesis
    by (auto simp: bit_eq_iff bit_and_iff bit_mask_iff)
qed

text \<open>A token file of another user, or one that group or others may access, reads as absent.\<close>

lemma read_auth_token_unsafe_absent:
  assumes "exists_token e" and "stat_token e = Inr token_stat"
    and "st_uid token_stat \<noteq> getuid e \<or> (\<exists>i<6. bit (st_mode token_stat) i)"
  shows "read_auth_token e = Inr None"
  using assms
  by (auto simp: read_auth_token_def read_auth_token_body_def group_other_bits)

text \<open>An \<open>OSError\<close> from \<open>os.stat\<close>, \<open>open\<close> or \<open>read\<close> reads as absent.\<close>

lemma read_auth_token_oserror_absent:
  assumes "(exists_token e \<and> stat_token e = Inl m) \<or> read_token e = ReadOSError m"
  shows "read_auth_token e = Inr None"
  using assms
  by (auto simp: read_auth_token_def read_auth_token_body_def read_token_file_def
      split: sum.split)

text \<open>
  When \<open>os.path.exists\<close> answers false the checks are skipped and the file is opened all the
  same: a file that appears in between is read whoever owns it.
\<close>

lemma read_auth_token_unchecked:
  assumes "\<not> exists_token e" and "read_token e = ReadText content"
  shows "read_auth_token e = Inr (Some (strip content))"
  using assms
  by (simp add: read_auth_token_def read_auth_token_body_def read_token_file_def)

text \<open>The only exception that leaves \<open>read_auth_token\<close> is the decoding error of the content.\<close>

lemma read_auth_token_raises:
  assumes "read_auth_token e = Inl x"
  shows "x = UnicodeDecodeError \<and> read_token e = ReadUndecodable"
  using assms
  by (auto simp: read_auth_token_def read_auth_token_body_def read_token_file_def
      split: sum.splits if_splits read_result.splits exn.splits)

text \<open>Without a verified socket or without a token, \<open>send_event\<close> returns \<open>None\<close> and makes no socket call.\<close>

lemma send_event_unavailable:
  assumes "verify_socket_security e = Inr (False, reason)
           \<or> read_auth_token e = Inr None \<or> read_auth_token e = Inr (Some [])"
  shows "send_event e state = ([], Inr JNull)"
  using assms
  by (auto simp: send_event_def send_event_body_def split: sum.split option.split prod.split)

lemma send_event_body_trace:
  "fst (send_event e state) = fst (send_event_body e state)"
  by (simp add: send_event_def split: prod.split sum.split)

text \<open>
  \<open>OSError\<close> and \<open>JSONDecodeError\<close> never leave \<open>send_event\<close>. What can leave it is the
  decoding error of the token or of the reply, and the two errors of the parser that are
  not \<open>JSONDecodeError\<close>.
\<close>

lemma send_event_raises:
  assumes "snd (send_event e state) = Inl x"
  shows "x = UnicodeDecodeError \<or> x = ValueError \<or> x = RecursionError"
proof -
  have "x \<noteq> JSONDecodeError" "\<not> is_OSError x"
    using assms by (auto simp: send_event_def split: prod.splits sum.splits if_splits)
  moreover have "snd (send_event_body e state) = Inl x"
    using assms by (auto simp: send_event_def split: prod.splits sum.splits if_splits)
  then have "x \<noteq> AttributeError"
    by (auto simp: send_event_body_def Let_def dest: read_auth_token_raises
        split: prod.splits sum.splits if_splits option.splits recv_result.splits)
  ultimately show ?thesis by (cases x) auto
qed

text \<open>One call of \<open>send_event\<close> creates at most one socket and connects at most once.\<close>

lemma send_event_one_connection:
  "length (filter (\<lambda>c. c = Socket) (fst (send_event e state))) \<le> 1
   \<and> length (filter (\<lambda>c. c = Connect) (fst (send_event e state))) \<le> 1"
  by (simp add: send_event_body_trace send_event_body_def Let_def
      split: prod.split sum.split option.split recv_result.split)

text \<open>Input that is no JSON document ends the run with status 1 before any other call.\<close>

lemma main_not_json:
  assumes "stdin e = StdinNotJson"
  shows "main e = \<lparr>exit_code = 1, uncaught = None, stdout = [], sent = [], ops = []\<rparr>"
  using assms by (simp add: main_def sys_exit_def)

section \<open>Exceptions that escape, and a socket left open\<close>

text \<open>
  C5. The claim: a token file of another user or with group or other access, and any I/O
  error, read as absent, and no error ever reaches the caller. The first part holds when
  \<open>os.path.exists\<close> answered true (\<open>read_auth_token_unsafe_absent\<close>), the second always
  (\<open>read_auth_token_oserror_absent\<close>). The last does not:
  \<open>except (OSError, IOError)\<close> does not catch the \<open>UnicodeDecodeError\<close> that \<open>f.read()\<close>
  raises on a token file of the user, mode \<open>0o600\<close>, whose bytes are not valid text.
\<close>

theorem undecodable_token_raises:
  "exists_token env_garbled_token
   \<and> stat_token env_garbled_token = Inr \<lparr>st_uid = 501, st_mode = 33152\<rparr>
   \<and> getuid env_garbled_token = 501
   \<and> (33152::nat) AND 63 = 0
   \<and> read_token env_garbled_token = ReadUndecodable
   \<and> read_auth_token env_garbled_token = Inl UnicodeDecodeError"
  by (simp add: env_garbled_token_def env_up_def send_defs)

text \<open>
  C3. The claim: \<open>send_event\<close> never raises, and a malformed reply surfaces as \<open>None\<close>.
  Without a verified socket or a token it does return \<open>None\<close> with no socket call
  (\<open>send_event_unavailable\<close>), and every \<open>OSError\<close> and \<open>JSONDecodeError\<close> is swallowed
  (\<open>send_event_raises\<close>). A reply whose bytes are not valid text makes \<open>response.decode()\<close>
  raise \<open>UnicodeDecodeError\<close>, which the \<open>except\<close> clause does not name: it reaches the
  caller.
\<close>

theorem undecodable_reply_raises:
  "send_event env_garbled_reply request_record =
     ([Socket, SetTimeout 300, Connect,
       SendAll (request_record @ [(str ''_auth_token'', JStr (str ''secret''))]),
       Recv 4096, Close],
      Inl UnicodeDecodeError)"
  by (simp add: env_garbled_reply_def env_up_def request_record_def send_defs str_def)

text \<open>
  C9. The claim: whenever a connection was opened it is closed on every exit path of
  \<open>send_event\<close>. At most one connection is opened (\<open>send_event_one_connection\<close>).
  \<open>sock.close()\<close> is called on the two paths where no call raises; when \<open>recv\<close> times out
  the \<open>except\<close> clause returns \<open>None\<close> and the connected socket is never closed by a
  statement of the function.
\<close>

theorem timeout_leaves_socket_open:
  "socket_connect env_timeout = None
   \<and> send_event env_timeout request_record =
     ([Socket, SetTimeout 300, Connect,
       SendAll (request_record @ [(str ''_auth_token'', JStr (str ''secret''))]),
       Recv 4096],
      Inr JNull)"
  by (simp add: env_timeout_def env_up_def request_record_def send_defs str_def)

text \<open>
  C2. The claim: the exit status is non-zero only for malformed input. Input that is no
  JSON document does end with status 1 and no socket call (\<open>main_not_json\<close>). But with the
  well-formed input \<open>{"hook_event_name": "PermissionRequest", "tool_name": "Bash"}\<close> and an
  authority that replies \<open>[1]\<close>, \<open>response.get\<close> raises \<open>AttributeError\<close> and the process
  ends with status 1.
\<close>

theorem list_reply_exits_nonzero:
  "stdin env_list_reply =
     StdinJson (JObj [(str ''hook_event_name'', JStr (str ''PermissionRequest'')),
                      (str ''tool_name'', JStr (str ''Bash''))])
   \<and> socket_recv env_list_reply = RecvJson (JArr [JInt 1])
   \<and> exit_code (main env_list_reply) = 1
   \<and> uncaught (main env_list_reply) = Some AttributeError"
  by (simp add: env_list_reply_def env_up_def main_defs send_defs str_def Let_def)

section \<open>The protocol of the sender\<close>

lemma status_after_token:
  "dict_get (dict_set state (str ''_auth_token'') v) (str ''status'') JNull
   = dict_get state (str ''status'') JNull"
  by (simp add: dict_get_def dict_set_def update_conv')

lemma recv_only_for_request:
  assumes "Recv n \<in> set (fst (send_event e state))"
  shows "dict_get state (str ''status'') JNull = JStr (str ''waiting_for_approval'')"
  using assms
  by (auto simp: send_event_body_trace send_event_body_def status_after_token Let_def
      split: prod.splits sum.splits option.splits if_splits)

lemma send_event_completes:
  assumes "verify_socket_security e = Inr (True, reason)"
    and "read_auth_token e = Inr (Some auth_token)" and "auth_token \<noteq> []"
    and "socket_create e = None" and "socket_connect e = None" and "socket_sendall e = None"
  shows "send_event e state =
     (if dict_get state (str ''status'') JNull = JStr (str ''waiting_for_approval'')
      then (case socket_recv e of
              RecvOSError m \<Rightarrow>
                ([Socket, SetTimeout 300, Connect,
                  SendAll (dict_set state (str ''_auth_token'') (JStr auth_token)), Recv 4096],
                 Inr JNull)
            | RecvEmpty \<Rightarrow>
                ([Socket, SetTimeout 300, Connect,
                  SendAll (dict_set state (str ''_auth_token'') (JStr auth_token)), Recv 4096,
                  Close], Inr JNull)
            | RecvUndecodable \<Rightarrow>
                ([Socket, SetTimeout 300, Connect,
                  SendAll (dict_set state (str ''_auth_token'') (JStr auth_token)), Recv 4096,
                  Close], Inl UnicodeDecodeError)
            | RecvNotJson \<Rightarrow>
                ([Socket, SetTimeout 300, Connect,
                  SendAll (dict_set state (str ''_auth_token'') (JStr auth_token)), Recv 4096,
                  Close], Inr JNull)
            | RecvDigitLimit \<Rightarrow>
                ([Socket, SetTimeout 300, Connect,
                  SendAll (dict_set state (str ''_auth_token'') (JStr auth_token)), Recv 4096,
                  Close], Inl ValueError)
            | RecvTooDeep \<Rightarrow>
                ([Socket, SetTimeout 300, Connect,
                  SendAll (dict_set state (str ''_auth_token'') (JStr auth_token)), Recv 4096,
                  Close], Inl RecursionError)
            | RecvJson response \<Rightarrow>
                ([Socket, SetTimeout 300, Connect,
                  SendAll (dict_set state (str ''_auth_token'') (JStr auth_token)), Recv 4096,
                  Close], Inr response))
      else ([Socket, SetTimeout 300, Connect,
             SendAll (dict_set state (str ''_auth_token'') (JStr auth_token)), Close],
            Inr JNull))"
  using assms
  by (simp add: send_event_def send_event_body_def status_after_token TIMEOUT_SECONDS_def
      Let_def split: recv_result.split)

text \<open>
  C4. A receive is issued only for a record whose status is \<open>waiting_for_approval\<close>. When
  the checks pass and socket creation, connect and send succeed: for such a record the trace
  is the creation, the timeout of 300 seconds, the connect, the send and then exactly one
  receive, and a receive that times out gives \<open>None\<close>; for every other record the socket is
  closed right after the send, no receive is issued and the result is \<open>None\<close>. How long a
  call blocks is outside the model: the timeout is the value passed to \<open>settimeout\<close>.
\<close>

theorem reply_awaited_iff_request:
  "(Recv 4096 \<in> set (fst (send_event e state)) \<longrightarrow>
      dict_get state (str ''status'') JNull = JStr (str ''waiting_for_approval''))
   \<and> (verify_socket_security e = Inr (True, reason)
        \<and> read_auth_token e = Inr (Some auth_token) \<and> auth_token \<noteq> []
        \<and> socket_create e = None \<and> socket_connect e = None \<and> socket_sendall e = None \<longrightarrow>
       (dict_get state (str ''status'') JNull = JStr (str ''waiting_for_approval'') \<longrightarrow>
          take 5 (fst (send_event e state)) =
            [Socket, SetTimeout 300, Connect,
             SendAll (dict_set state (str ''_auth_token'') (JStr auth_token)), Recv 4096]
          \<and> length (filter (\<lambda>c. c = Recv 4096) (fst (send_event e state))) = 1
          \<and> (\<forall>m. socket_recv e = RecvOSError m \<longrightarrow>
                send_event e state =
                  ([Socket, SetTimeout 300, Connect,
                    SendAll (dict_set state (str ''_auth_token'') (JStr auth_token)),
                    Recv 4096], Inr JNull)))
       \<and> (dict_get state (str ''status'') JNull \<noteq> JStr (str ''waiting_for_approval'') \<longrightarrow>
          send_event e state =
            ([Socket, SetTimeout 300, Connect,
              SendAll (dict_set state (str ''_auth_token'') (JStr auth_token)), Close],
             Inr JNull)))"
proof (intro conjI impI)
  assume "Recv 4096 \<in> set (fst (send_event e state))"
  then show "dict_get state (str ''status'') JNull = JStr (str ''waiting_for_approval'')"
    by (rule recv_only_for_request)
next
  assume ok: "verify_socket_security e = Inr (True, reason)
        \<and> read_auth_token e = Inr (Some auth_token) \<and> auth_token \<noteq> []
        \<and> socket_create e = None \<and> socket_connect e = None \<and> socket_sendall e = None"
    and req: "dict_get state (str ''status'') JNull = JStr (str ''waiting_for_approval'')"
  note run = send_event_completes [of e reason auth_token state]
  show "take 5 (fst (send_event e state)) =
            [Socket, SetTimeout 300, Connect,
             SendAll (dict_set state (str ''_auth_token'') (JStr auth_token)), Recv 4096]"
    using ok req by (simp add: run split: recv_result.split)
  show "length (filter (\<lambda>c. c = Recv 4096) (fst (send_event e state))) = 1"
    using ok req by (simp add: run split: recv_result.split)
  show "\<forall>m. socket_recv e = RecvOSError m \<longrightarrow>
                send_event e state =
                  ([Socket, SetTimeout 300, Connect,
                    SendAll (dict_set state (str ''_auth_token'') (JStr auth_token)),
                    Recv 4096], Inr JNull)"
    using ok req by (simp add: run)
next
  assume ok: "verify_socket_security e = Inr (True, reason)
        \<and> read_auth_token e = Inr (Some auth_token) \<and> auth_token \<noteq> []
        \<and> socket_create e = None \<and> socket_connect e = None \<and> socket_sendall e = None"
    and req: "dict_get state (str ''status'') JNull \<noteq> JStr (str ''waiting_for_approval'')"
  show "send_event e state =
            ([Socket, SetTimeout 300, Connect,
              SendAll (dict_set state (str ''_auth_token'') (JStr auth_token)), Close],
             Inr JNull)"
    using ok req by (simp add: send_event_completes [of e reason auth_token state])
qed

lemmas check_defs = verify_socket_security_def verify_socket_security_body_def
  read_auth_token_def read_auth_token_body_def read_token_file_def S_ISSOCK_def strip_def
  py_isspace_def

theorem reply_awaited_iff_request_witness:
  "take 5 (fst (send_event env_up request_record)) =
     [Socket, SetTimeout 300, Connect,
      SendAll (request_record @ [(str ''_auth_token'', JStr (str ''secret''))]), Recv 4096]
   \<and> send_event env_timeout request_record =
     ([Socket, SetTimeout 300, Connect,
       SendAll (request_record @ [(str ''_auth_token'', JStr (str ''secret''))]), Recv 4096],
      Inr JNull)
   \<and> send_event env_up ended_record =
     ([Socket, SetTimeout 300, Connect,
       SendAll (ended_record @ [(str ''_auth_token'', JStr (str ''secret''))]), Close],
      Inr JNull)"
  using reply_awaited_iff_request [of env_up request_record None "str ''secret''"]
    reply_awaited_iff_request [of env_timeout request_record None "str ''secret''"]
    reply_awaited_iff_request [of env_up ended_record None "str ''secret''"]
  by (simp add: env_up_def env_timeout_def request_record_def ended_record_def check_defs
      dict_get_def dict_set_def str_def)

section \<open>The rendering of the reply\<close>

text \<open>
  For a notification of kind \<open>PermissionRequest\<close>, let \<open>response\<close> be what \<open>send_event\<close>
  returns for the record built from it, when it returns. If it is a dictionary whose decision is \<open>allow\<close>,
  exactly one document is printed, with behavior \<open>allow\<close> and no other field in the decision.
  If the decision is \<open>deny\<close> with the non-empty reason \<open>x\<close>, the document has behavior \<open>deny\<close>
  and message \<open>x\<close>; without reason, or with the empty one, the message is
  \<open>Denied by user via ClaudeIsland\<close>. If the decision is \<open>ask\<close> or missing, or \<open>send_event\<close>
  returned \<open>None\<close>, nothing is printed. The exit status is 0 in every case.
\<close>

lemma reply_rendered:
  assumes "stdin e = StdinJson (JObj data)"
    and "map_of data (str ''hook_event_name'') = Some (JStr (str ''PermissionRequest''))"
    and "snd (send_event e
           (set_tool data (set_status (base_state e data) ''waiting_for_approval'')))
         = Inr response"
  shows
    "(\<forall>r. response = JObj r \<and> map_of r (str ''decision'') = Some (JStr (str ''allow'')) \<longrightarrow>
        stdout (main e) =
          [JObj [(str ''hookSpecificOutput'',
                  JObj [(str ''hookEventName'', JStr (str ''PermissionRequest'')),
                        (str ''decision'', JObj [(str ''behavior'', JStr (str ''allow''))])])]]
        \<and> exit_code (main e) = 0)
   \<and> (\<forall>r x. response = JObj r \<and> map_of r (str ''decision'') = Some (JStr (str ''deny''))
            \<and> map_of r (str ''reason'') = Some (JStr x) \<and> x \<noteq> [] \<longrightarrow>
        stdout (main e) =
          [JObj [(str ''hookSpecificOutput'',
                  JObj [(str ''hookEventName'', JStr (str ''PermissionRequest'')),
                        (str ''decision'',
                         JObj [(str ''behavior'', JStr (str ''deny'')),
                               (str ''message'', JStr x)])])]]
        \<and> exit_code (main e) = 0)
   \<and> (\<forall>r. response = JObj r \<and> map_of r (str ''decision'') = Some (JStr (str ''deny''))
          \<and> (map_of r (str ''reason'') = None \<or> map_of r (str ''reason'') = Some (JStr []))
          \<longrightarrow>
        stdout (main e) =
          [JObj [(str ''hookSpecificOutput'',
                  JObj [(str ''hookEventName'', JStr (str ''PermissionRequest'')),
                        (str ''decision'',
                         JObj [(str ''behavior'', JStr (str ''deny'')),
                               (str ''message'',
                                JStr (str ''Denied by user via ClaudeIsland''))])])]]
        \<and> exit_code (main e) = 0)
   \<and> (\<forall>r. response = JObj r
          \<and> (map_of r (str ''decision'') = Some (JStr (str ''ask''))
               \<or> map_of r (str ''decision'') = None) \<longrightarrow>
        stdout (main e) = [] \<and> exit_code (main e) = 0)
   \<and> (response = JNull \<longrightarrow> stdout (main e) = [] \<and> exit_code (main e) = 0)"
proof -
  let ?st = "set_tool data (set_status (base_state e data) ''waiting_for_approval'')"
  obtain tr where sent: "send_event e ?st = (tr, Inr response)"
    using assms(3) by (cases "send_event e ?st") auto
  have run: "main e = permission_request e ?st"
    using assms(1,2) by (simp add: main_def main_body_def)
  have nonempty: "map_of r k = Some v \<Longrightarrow> r \<noteq> []" for r :: pydict and k v
    by auto
  show ?thesis
    unfolding run permission_request_def sent
    by (auto simp: sys_exit_def allow_output_def deny_output_def dest: nonempty)
qed

lemma status_of_request_state:
  "dict_get (set_tool data (set_status st s)) (str ''status'') JNull = JStr (str s)"
  by (simp add: set_tool_def set_status_def dict_get_def dict_set_def update_conv')

lemma request_reply:
  assumes "verify_socket_security e = Inr (True, reason)"
    and "read_auth_token e = Inr (Some auth_token)" and "auth_token \<noteq> []"
    and "socket_create e = None" and "socket_connect e = None" and "socket_sendall e = None"
  shows "snd (send_event e (set_tool data (set_status st ''waiting_for_approval''))) =
     (case socket_recv e of
        RecvOSError m \<Rightarrow> Inr JNull
      | RecvEmpty \<Rightarrow> Inr JNull
      | RecvUndecodable \<Rightarrow> Inl UnicodeDecodeError
      | RecvNotJson \<Rightarrow> Inr JNull
      | RecvDigitLimit \<Rightarrow> Inl ValueError
      | RecvTooDeep \<Rightarrow> Inl RecursionError
      | RecvJson response \<Rightarrow> Inr response)"
  by (simp add: send_event_completes [OF assms] status_of_request_state
      split: recv_result.split)

lemma env_up_checks:
  "verify_socket_security (env_up\<lparr>socket_recv := r\<rparr>) = Inr (True, None)"
  "read_auth_token (env_up\<lparr>socket_recv := r\<rparr>) = Inr (Some (str ''secret''))"
  "socket_create (env_up\<lparr>socket_recv := r\<rparr>) = None"
  "socket_connect (env_up\<lparr>socket_recv := r\<rparr>) = None"
  "socket_sendall (env_up\<lparr>socket_recv := r\<rparr>) = None"
  "stdin (env_up\<lparr>socket_recv := r\<rparr>) = StdinJson (JObj request_input)"
  by (simp_all add: env_up_def check_defs request_input_def str_def)

lemma env_up_reply:
  "snd (send_event (env_up\<lparr>socket_recv := r\<rparr>)
         (set_tool data (set_status st ''waiting_for_approval''))) =
     (case r of
        RecvOSError m \<Rightarrow> Inr JNull
      | RecvEmpty \<Rightarrow> Inr JNull
      | RecvUndecodable \<Rightarrow> Inl UnicodeDecodeError
      | RecvNotJson \<Rightarrow> Inr JNull
      | RecvDigitLimit \<Rightarrow> Inl ValueError
      | RecvTooDeep \<Rightarrow> Inl RecursionError
      | RecvJson response \<Rightarrow> Inr response)"
  by (simp add: request_reply [where reason = None and auth_token = "str ''secret''"]
      env_up_checks str_def)

lemma str_Nil_iff [simp]: "str s = [] \<longleftrightarrow> s = []"
  by (simp add: str_def)

lemma reply_rendered_examples:
  "stdout (main env_up) =
     [JObj [(str ''hookSpecificOutput'',
             JObj [(str ''hookEventName'', JStr (str ''PermissionRequest'')),
                   (str ''decision'', JObj [(str ''behavior'', JStr (str ''allow''))])])]]
   \<and> exit_code (main env_up) = 0
   \<and> stdout (main env_deny_reason) =
     [JObj [(str ''hookSpecificOutput'',
             JObj [(str ''hookEventName'', JStr (str ''PermissionRequest'')),
                   (str ''decision'',
                    JObj [(str ''behavior'', JStr (str ''deny'')),
                          (str ''message'', JStr (str ''x''))])])]]
   \<and> exit_code (main env_deny_reason) = 0
   \<and> stdout (main env_deny) =
     [JObj [(str ''hookSpecificOutput'',
             JObj [(str ''hookEventName'', JStr (str ''PermissionRequest'')),
                   (str ''decision'',
                    JObj [(str ''behavior'', JStr (str ''deny'')),
                          (str ''message'', JStr (str ''Denied by user via ClaudeIsland''))])])]]
   \<and> exit_code (main env_deny) = 0
   \<and> stdout (main env_ask) = [] \<and> exit_code (main env_ask) = 0
   \<and> stdout (main env_timeout) = [] \<and> exit_code (main env_timeout) = 0"
proof -
  have up: "env_up\<lparr>socket_recv := RecvJson (JObj [(str ''decision'', JStr (str ''allow''))])\<rparr>
            = env_up"
    by (simp add: env_up_def)
  have event: "map_of request_input (str ''hook_event_name'')
               = Some (JStr (str ''PermissionRequest''))"
    by (simp add: request_input_def)
  note eval = env_up_checks env_up_reply event
  have "stdout (main (env_up\<lparr>socket_recv :=
                 RecvJson (JObj [(str ''decision'', JStr (str ''allow''))])\<rparr>)) =
     [JObj [(str ''hookSpecificOutput'',
             JObj [(str ''hookEventName'', JStr (str ''PermissionRequest'')),
                   (str ''decision'', JObj [(str ''behavior'', JStr (str ''allow''))])])]]
     \<and> exit_code (main (env_up\<lparr>socket_recv :=
                 RecvJson (JObj [(str ''decision'', JStr (str ''allow''))])\<rparr>)) = 0"
    using reply_rendered [of
        "env_up\<lparr>socket_recv := RecvJson (JObj [(str ''decision'', JStr (str ''allow''))])\<rparr>"
        request_input "JObj [(str ''decision'', JStr (str ''allow''))]"]
    by (simp add: eval)
  then have allow: "stdout (main env_up) =
     [JObj [(str ''hookSpecificOutput'',
             JObj [(str ''hookEventName'', JStr (str ''PermissionRequest'')),
                   (str ''decision'', JObj [(str ''behavior'', JStr (str ''allow''))])])]]
     \<and> exit_code (main env_up) = 0"
    unfolding up .
  have deny_reason: "stdout (main env_deny_reason) =
     [JObj [(str ''hookSpecificOutput'',
             JObj [(str ''hookEventName'', JStr (str ''PermissionRequest'')),
                   (str ''decision'',
                    JObj [(str ''behavior'', JStr (str ''deny'')),
                          (str ''message'', JStr (str ''x''))])])]]
     \<and> exit_code (main env_deny_reason) = 0"
    unfolding env_deny_reason_def
    using reply_rendered [of
        "env_up\<lparr>socket_recv := RecvJson (JObj [(str ''decision'', JStr (str ''deny'')),
                                                (str ''reason'', JStr (str ''x''))])\<rparr>"
        request_input
        "JObj [(str ''decision'', JStr (str ''deny'')), (str ''reason'', JStr (str ''x''))]"]
    by (simp add: eval)
  have deny: "stdout (main env_deny) =
     [JObj [(str ''hookSpecificOutput'',
             JObj [(str ''hookEventName'', JStr (str ''PermissionRequest'')),
                   (str ''decision'',
                    JObj [(str ''behavior'', JStr (str ''deny'')),
                          (str ''message'', JStr (str ''Denied by user via ClaudeIsland''))])])]]
     \<and> exit_code (main env_deny) = 0"
    unfolding env_deny_def
    using reply_rendered [of
        "env_up\<lparr>socket_recv := RecvJson (JObj [(str ''decision'', JStr (str ''deny''))])\<rparr>"
        request_input "JObj [(str ''decision'', JStr (str ''deny''))]"]
    by (simp add: eval)
  have ask: "stdout (main env_ask) = [] \<and> exit_code (main env_ask) = 0"
    unfolding env_ask_def
    using reply_rendered [of
        "env_up\<lparr>socket_recv := RecvJson (JObj [(str ''decision'', JStr (str ''ask''))])\<rparr>"
        request_input "JObj [(str ''decision'', JStr (str ''ask''))]"]
    by (simp add: eval)
  have timeout: "stdout (main env_timeout) = [] \<and> exit_code (main env_timeout) = 0"
    unfolding env_timeout_def
    using reply_rendered [of "env_up\<lparr>socket_recv := RecvOSError (str ''timed out'')\<rparr>"
        request_input JNull]
    by (simp add: eval)
  show ?thesis
    using allow deny_reason deny ask timeout by simp
qed

text \<open>
  C1. The claim: allow and deny replies are rendered as one directive, and when the decision
  is \<open>ask\<close> or no reply was obtained nothing is printed and the process exits with status 0.
  The renderings hold whenever \<open>send_event\<close> returns (\<open>reply_rendered\<close>). But \<open>main\<close> calls
  \<open>send_event\<close> at line 188 outside any \<open>try\<close>: with a token file whose bytes are not valid
  text no socket call is made, so no reply is obtained, and the \<open>UnicodeDecodeError\<close> that
  leaves \<open>send_event\<close> ends the process with status 1.
\<close>

theorem no_reply_exits_nonzero:
  "stdin env_garbled_token = StdinJson (JObj request_input)
   \<and> read_token env_garbled_token = ReadUndecodable
   \<and> ops (main env_garbled_token) = []
   \<and> stdout (main env_garbled_token) = []
   \<and> exit_code (main env_garbled_token) = 1
   \<and> uncaught (main env_garbled_token) = Some UnicodeDecodeError"
  by (simp add: env_garbled_token_def env_up_def request_input_def main_defs send_defs
      Let_def)

section \<open>The classification of notifications\<close>

text \<open>
  C7, as stated, fails: not every parseable notification produces a record. The
  permission-prompt notification is a JSON object with a known kind, and no record is built
  for it.
\<close>

theorem suppressed_notification_counterexample:
  "stdin env_prompt_session =
     StdinJson (JObj [(str ''session_id'', JStr (str ''s1'')),
                      (str ''hook_event_name'', JStr (str ''Notification'')),
                      (str ''notification_type'', JStr (str ''permission_prompt'')),
                      (str ''message'', JStr (str ''Claude needs your permission''))])
   \<and> sent (main env_prompt_session) = []
   \<and> exit_code (main env_prompt_session) = 0"
  by (simp add: env_prompt_session_def env_up_def main_def main_body_def sys_exit_def
      dict_get_def)

lemma map_of_dict_set:
  "map_of (dict_set d k v) k' = (if k' = k then Some v else map_of d k')"
  by (simp add: dict_set_def update_conv')

lemma status_set_status [simp]:
  "map_of (set_status st s) (str ''status'') = Some (JStr (str s))"
  by (simp add: set_status_def map_of_dict_set)

lemma status_set_tool [simp]:
  "map_of (set_tool data st) (str ''status'') = map_of st (str ''status'')"
  by (simp add: set_tool_def map_of_dict_set)

lemma status_set_tool_use_id [simp]:
  "map_of (set_tool_use_id data st) (str ''status'') = map_of st (str ''status'')"
  by (simp add: set_tool_use_id_def map_of_dict_set Let_def)

lemma send_and_return_fields [simp]:
  "sent (send_and_return e st) = [st]"
  "stdout (send_and_return e st) = []"
  "ops (send_and_return e st) = fst (send_event e st)"
  by (simp_all add: send_and_return_def sys_exit_def traceback_def split: prod.split sum.split)

lemma permission_request_sent [simp]: "sent (permission_request e st) = [st]"
  by (simp add: permission_request_def sys_exit_def traceback_def Let_def
      split: prod.split sum.split json.split)

lemma no_recv_unless_request:
  assumes "map_of st (str ''status'') = Some (JStr (str s))" and "s \<noteq> ''waiting_for_approval''"
  shows "Recv n \<notin> set (fst (send_event e st))"
  using recv_only_for_request [of n e st] assms by auto

text \<open>
  C7, amended. Every notification that is a JSON object, except the \<open>Notification\<close> with
  subtype \<open>permission_prompt\<close>, gives exactly one record, whose status is one of eight fixed
  values. The status is \<open>waiting_for_approval\<close>, the tag of a request, exactly for the kind
  \<open>PermissionRequest\<close>; for every other kind nothing is printed and no reply is received;
  a kind outside the ten the program names gets the status \<open>unknown\<close>.
\<close>

theorem classification_total:
  assumes "stdin e = StdinJson (JObj data)"
    and "\<not> (dict_get data (str ''hook_event_name'') (JStr []) = JStr (str ''Notification'')
            \<and> dict_get data (str ''notification_type'') JNull = JStr (str ''permission_prompt''))"
  shows "\<exists>state s. sent (main e) = [state]
     \<and> map_of state (str ''status'') = Some (JStr (str s))
     \<and> s \<in> set [''processing'', ''running_tool'', ''waiting_for_approval'',
                  ''waiting_for_input'', ''notification'', ''ended'', ''compacting'',
                  ''unknown'']
     \<and> (s = ''waiting_for_approval''
          \<longleftrightarrow> dict_get data (str ''hook_event_name'') (JStr []) = JStr (str ''PermissionRequest''))
     \<and> (dict_get data (str ''hook_event_name'') (JStr []) \<noteq> JStr (str ''PermissionRequest'')
          \<longrightarrow> stdout (main e) = [] \<and> Recv 4096 \<notin> set (ops (main e)))
     \<and> (dict_get data (str ''hook_event_name'') (JStr []) \<notin>
            JStr ` str ` set [''UserPromptSubmit'', ''PreToolUse'', ''PostToolUse'',
               ''PermissionRequest'', ''Notification'', ''Stop'', ''SubagentStop'',
               ''SessionStart'', ''SessionEnd'', ''PreCompact'']
          \<longrightarrow> s = ''unknown'')"
  using assms
  by (simp add: main_def main_body_def Let_def map_of_dict_set no_recv_unless_request)


theorem classification_total_witness:
  "length (sent (main env_start)) = 1 \<and> stdout (main env_start) = []
   \<and> length (sent (main env_unknown)) = 1
   \<and> map_of (hd (sent (main env_unknown))) (str ''status'') = Some (JStr (str ''unknown''))
   \<and> length (sent (main env_up)) = 1
   \<and> map_of (hd (sent (main env_up))) (str ''status'')
       = Some (JStr (str ''waiting_for_approval''))"
proof -
  have start: "length (sent (main env_start)) = 1 \<and> stdout (main env_start) = []"
    using classification_total [of env_start
        "[(str ''hook_event_name'', JStr (str ''SessionStart''))]"]
    by (auto simp: env_start_def env_up_def dict_get_def)
  have unknown: "length (sent (main env_unknown)) = 1
      \<and> map_of (hd (sent (main env_unknown))) (str ''status'') = Some (JStr (str ''unknown''))"
    using classification_total [of env_unknown
        "[(str ''hook_event_name'', JStr (str ''SomethingNew''))]"]
    by (auto simp: env_unknown_def env_up_def dict_get_def)
  have request: "length (sent (main env_up)) = 1
      \<and> map_of (hd (sent (main env_up))) (str ''status'')
          = Some (JStr (str ''waiting_for_approval''))"
    using classification_total [of env_up request_input]
    by (auto simp: env_up_def request_input_def dict_get_def)
  show ?thesis using start unknown request by simp
qed

end
